theory Spec2Isabelle
  imports Main
begin

section \<open>JSON values and Python subscription\<close>

text \<open>
  The value returned by \<^verbatim>\<open>request.get_json()\<close> and the dictionaries the handler builds
  are JSON values. An object is an association list in insertion order, as a Python
  \<^verbatim>\<open>dict\<close> keeps it; lookup is \<open>map_of\<close>. Numbers are Python integers (fractional
  numbers are not part of the model; the handler never inspects a number).
\<close>

datatype json =
    JNull
  | JBool bool
  | JNum int
  | JStr string
  | JArr "json list"
  | JObj "(string \<times> json) list"

text \<open>
  The exceptions that can leave the handler: \<^verbatim>\<open>KeyError\<close> and \<^verbatim>\<open>TypeError\<close> from a
  subscription, and a transport failure raised by \<^verbatim>\<open>requests.post\<close>. \<open>HTTPError\<close> is raised
  by \<^verbatim>\<open>Response.raise_for_status\<close> and caught inside \<^verbatim>\<open>Response.ok\<close>.
\<close>

datatype error = KeyError string | TypeError | HTTPError | RequestException

text \<open>
  \<^verbatim>\<open>x[k]\<close> with a string key: a dictionary raises \<^verbatim>\<open>KeyError\<close> when the key is absent;
  \<^verbatim>\<open>None\<close>, booleans and numbers are not subscriptable, strings and lists take integer
  indices only, so each raises \<^verbatim>\<open>TypeError\<close>.
\<close>

fun getitem :: "json \<Rightarrow> string \<Rightarrow> error + json" where
  "getitem (JObj kvs) k = (case map_of kvs k of None \<Rightarrow> Inl (KeyError k) | Some v \<Rightarrow> Inr v)"
| "getitem JNull k = Inl TypeError"
| "getitem (JBool b) k = Inl TypeError"
| "getitem (JNum n) k = Inl TypeError"
| "getitem (JStr s) k = Inl TypeError"
| "getitem (JArr xs) k = Inl TypeError"

text \<open>Sequencing of statements that may raise: the first exception ends the handler.\<close>

definition and_then :: "error + 'a \<Rightarrow> ('a \<Rightarrow> error + 'b) \<Rightarrow> error + 'b" where
  "and_then m f = (case m of Inl e \<Rightarrow> Inl e | Inr x \<Rightarrow> f x)"

section \<open>Configuration, outbound requests and responses\<close>

text \<open>
  The two environment variables. \<^verbatim>\<open>"Bearer " + os.getenv("WEBEX_BOT_TOKEN")\<close> is
  evaluated when the module is imported and raises when the variable is unset, so a
  running application has a token. \<^verbatim>\<open>os.getenv("WEBEX_ROOM_ID")\<close> is \<^verbatim>\<open>None\<close> when the
  variable is unset, which the message payload carries as \<^verbatim>\<open>null\<close>.
\<close>

record config =
  WEBEX_BOT_TOKEN :: string
  WEBEX_ROOM_ID :: "string option"

definition json_of_getenv :: "string option \<Rightarrow> json" where
  "json_of_getenv v = (case v of None \<Rightarrow> JNull | Some s \<Rightarrow> JStr s)"

record post_request =
  req_url :: string
  req_headers :: "(string \<times> string) list"
  req_json :: json

record api_response =
  status_code :: int
  resp_text :: string

text \<open>
  The external messaging API is a parameter of the handler: it answers a request
  with a response, or the transport raises. The requests already posted are the
  state the handler threads through.
\<close>

type_synonym api = "post_request \<Rightarrow> error + api_response"

type_synonym world = "post_request list"

datatype body = Json json | Html string

record flask_response =
  resp_body :: body
  resp_status :: int

definition api_url :: string where
  "api_url = ''https://webexapis.com/v1/messages''"

definition headers :: "config \<Rightarrow> (string \<times> string) list" where
  "headers cfg =
     [(''Content-Type'', ''application/json''),
      (''Authorization'', ''Bearer '' @ WEBEX_BOT_TOKEN cfg)]"

text \<open>
  \<^verbatim>\<open>Response.raise_for_status\<close> and \<^verbatim>\<open>Response.ok\<close> of the requests library:
  \<^verbatim>\<open>
  if 400 <= self.status_code < 500: http_error_msg = ... Client Error ...
  elif 500 <= self.status_code < 600: http_error_msg = ... Server Error ...
  if http_error_msg: raise HTTPError(http_error_msg, response=self)
  \<close>
  and \<^verbatim>\<open>ok\<close> is \<^verbatim>\<open>False\<close> exactly when \<^verbatim>\<open>raise_for_status\<close> raises.
\<close>

definition raise_for_status :: "api_response \<Rightarrow> error + unit" where
  "raise_for_status r =
     (if 400 \<le> status_code r \<and> status_code r < 500 then Inl HTTPError
      else if 500 \<le> status_code r \<and> status_code r < 600 then Inl HTTPError
      else Inr ())"

definition ok :: "api_response \<Rightarrow> bool" where
  "ok r = (case raise_for_status r of Inl e \<Rightarrow> False | Inr u \<Rightarrow> True)"

section \<open>The webhook handler\<close>

text \<open>The local variables of lines 27 to 33, in the order they are assigned.\<close>

record launch =
  rocket_name :: json
  payload_type :: json
  payload_description :: json
  launch_time :: json
  launch_site :: json
  mission_patch :: json
  video_stream :: json

definition launch_details :: "json \<Rightarrow> error + launch" where
  "launch_details webhook =
     and_then (getitem webhook ''data'') (\<lambda>data.
     and_then (getitem data ''rocket_name'') (\<lambda>rn.
     and_then (getitem data ''payload_type'') (\<lambda>pt.
     and_then (getitem data ''payload_description'') (\<lambda>pd.
     and_then (getitem data ''launch_time'') (\<lambda>lt.
     and_then (getitem data ''launch_site'') (\<lambda>ls.
     and_then (getitem data ''mission_patch'') (\<lambda>mp.
     and_then (getitem data ''video_stream'') (\<lambda>vs.
     Inr \<lparr>rocket_name = rn, payload_type = pt, payload_description = pd,
          launch_time = lt, launch_site = ls, mission_patch = mp,
          video_stream = vs\<rparr>))))))))"

definition card_payload :: "launch \<Rightarrow> json" where
  "card_payload l =
     JObj [
       (''$schema'', JStr ''http://adaptivecards.io/schemas/adaptive-card.json''),
       (''type'', JStr ''AdaptiveCard''),
       (''version'', JStr ''1.3''),
       (''body'', JArr [
          JObj [
            (''type'', JStr ''TextBlock''),
            (''text'', JStr ''Rocket Launch Successful!''),
            (''weight'', JStr ''Bolder''),
            (''size'', JStr ''Large''),
            (''color'', JStr ''Accent''),
            (''wrap'', JBool True)],
          JObj [
            (''type'', JStr ''ColumnSet''),
            (''columns'', JArr [
               JObj [
                 (''type'', JStr ''Column''),
                 (''width'', JStr ''auto''),
                 (''items'', JArr [
                    JObj [
                      (''type'', JStr ''Image''),
                      (''url'', mission_patch l),
                      (''size'', JStr ''Small''),
                      (''style'', JStr ''Person'')]])],
               JObj [
                 (''type'', JStr ''Column''),
                 (''width'', JStr ''stretch''),
                 (''items'', JArr [
                    JObj [
                      (''type'', JStr ''TextBlock''),
                      (''text'', JStr ''Rocket Launch Details''),
                      (''weight'', JStr ''Bolder''),
                      (''wrap'', JBool True)],
                    JObj [
                      (''type'', JStr ''FactSet''),
                      (''facts'', JArr [
                         JObj [(''title'', JStr ''Rocket Name''),
                               (''value'', rocket_name l)],
                         JObj [(''title'', JStr ''Payload Type''),
                               (''value'', payload_type l)],
                         JObj [(''title'', JStr ''Payload Description''),
                               (''value'', payload_description l)],
                         JObj [(''title'', JStr ''Launch Time''),
                               (''value'', launch_time l)],
                         JObj [(''title'', JStr ''Launch Site''),
                               (''value'', launch_site l)]])]])]])]]),
       (''actions'', JArr [
          JObj [
            (''type'', JStr ''Action.OpenUrl''),
            (''title'', JStr ''Watch the Launch''),
            (''url'', video_stream l)]])]"

definition message_payload :: "config \<Rightarrow> json \<Rightarrow> json" where
  "message_payload cfg content =
     JObj [
       (''roomId'', json_of_getenv (WEBEX_ROOM_ID cfg)),
       (''attachments'', JArr [
          JObj [
            (''contentType'', JStr ''application/vnd.microsoft.card.adaptive''),
            (''content'', content)]]),
       (''text'', JStr ''New Rocket Launch Detected'')]"

text \<open>
  Lines 126 to 131: the request is posted (and recorded), then the response is
  mapped to the handler's own response. \<^verbatim>\<open>jsonify(d), code\<close> is a JSON body with that
  status.
\<close>

definition respond :: "api_response \<Rightarrow> flask_response" where
  "respond response =
     (if ok response
      then \<lparr>resp_body = Json (JObj [(''success'', JBool True)]), resp_status = 200\<rparr>
      else \<lparr>resp_body = Json (JObj [(''success'', JBool False),
                                     (''message'', JStr (resp_text response))]),
            resp_status = status_code response\<rparr>)"

definition handle_webhook ::
  "config \<Rightarrow> api \<Rightarrow> json \<Rightarrow> world \<Rightarrow> world \<times> (error + flask_response)" where
  "handle_webhook cfg post webhook w =
     (case launch_details webhook of
        Inl e \<Rightarrow> (w, Inl e)
      | Inr l \<Rightarrow>
          (let request = \<lparr>req_url = api_url, req_headers = headers cfg,
                          req_json = message_payload cfg (card_payload l)\<rparr>
           in (w @ [request],
               (case post request of
                  Inl e \<Rightarrow> Inl e
                | Inr response \<Rightarrow> Inr (respond response)))))"

section \<open>The status endpoint\<close>

text \<open>
  Modelled from the spec: the template \<^verbatim>\<open>templates/status.html\<close> is not among the
  sources. The spec describes "a static informational page/body confirming the process
  is running"; the view passes the confirmation as the template variable
  \<^verbatim>\<open>message\<close>. The page is modelled as fixed markup \<open>pre\<close> and \<open>suf\<close> around the
  message (the message of the view has no character that Jinja escapes).
\<close>

definition render_status_html :: "string \<Rightarrow> string \<Rightarrow> string \<Rightarrow> string" where
  "render_status_html pre suf message = pre @ message @ suf"

definition status :: "string \<Rightarrow> string \<Rightarrow> flask_response" where
  "status pre suf =
     \<lparr>resp_body = Html (render_status_html pre suf ''The server is up and running!''),
      resp_status = 200\<rparr>"

text \<open>
  The two routes of the application. A view that returns a string answers with
  status 200. The webhook route is entered with the value of \<^verbatim>\<open>request.get_json()\<close>;
  a body that Flask cannot parse never reaches the lines modelled here.
\<close>

datatype request = POST_webhook json | GET_status

fun serve ::
  "config \<Rightarrow> api \<Rightarrow> string \<Rightarrow> string \<Rightarrow> request \<Rightarrow> world \<Rightarrow> world \<times> (error + flask_response)" where
  "serve cfg post pre suf (POST_webhook j) w = handle_webhook cfg post j w"
| "serve cfg post pre suf GET_status w = (w, Inr (status pre suf))"

section \<open>Reading events and payloads\<close>

text \<open>
  The seven fields of an inbound launch event, in the order of the data model, and the
  value an event holds for a field: the body must be an object whose \<open>data\<close> member is
  an object. An event is well formed when each of the seven fields is a string.
\<close>

definition required_fields :: "string list" where
  "required_fields =
     [''rocket_name'', ''payload_type'', ''payload_description'', ''launch_time'',
      ''launch_site'', ''mission_patch'', ''video_stream'']"

definition data_object :: "json \<Rightarrow> (string \<times> json) list option" where
  "data_object ev =
     (case ev of
        JObj kvs \<Rightarrow> (case map_of kvs ''data'' of Some (JObj d) \<Rightarrow> Some d | _ \<Rightarrow> None)
      | _ \<Rightarrow> None)"

definition field_value :: "json \<Rightarrow> string \<Rightarrow> json option" where
  "field_value ev k = (case data_object ev of None \<Rightarrow> None | Some d \<Rightarrow> map_of d k)"

definition is_string :: "json option \<Rightarrow> bool" where
  "is_string v = (case v of Some (JStr s) \<Rightarrow> True | _ \<Rightarrow> False)"

definition well_formed :: "json \<Rightarrow> bool" where
  "well_formed ev = list_all (\<lambda>k. is_string (field_value ev k)) required_fields"

text \<open>
  Reading a payload: a path of object keys and array indices leads to the value in
  that slot, if there is one; \<open>leaves\<close> lists the scalars of a value in document
  order.
\<close>

datatype step = Key string | Idx nat

fun at :: "json \<Rightarrow> step \<Rightarrow> json option" where
  "at (JObj kvs) (Key k) = map_of kvs k"
| "at (JArr xs) (Idx i) = (if i < length xs then Some (xs ! i) else None)"
| "at j s = None"

fun lookup_path :: "json \<Rightarrow> step list \<Rightarrow> json option" where
  "lookup_path j [] = Some j"
| "lookup_path j (s # ss) = (case at j s of None \<Rightarrow> None | Some j' \<Rightarrow> lookup_path j' ss)"

fun leaves :: "json \<Rightarrow> json list" where
  "leaves (JArr xs) = concat (map leaves xs)"
| "leaves (JObj kvs) = concat (map (\<lambda>(k, v). leaves v) kvs)"
| "leaves j = [j]"

text \<open>The slots of the message and of the card that the claims name.\<close>

definition card_path :: "step list" where
  "card_path = [Key ''attachments'', Idx 0, Key ''content'']"

definition header_path :: "step list" where
  "header_path = [Key ''body'', Idx 0]"

definition image_path :: "step list" where
  "image_path = [Key ''body'', Idx 1, Key ''columns'', Idx 0, Key ''items'', Idx 0]"

definition factset_path :: "step list" where
  "factset_path = [Key ''body'', Idx 1, Key ''columns'', Idx 1, Key ''items'', Idx 1]"

definition action_path :: "step list" where
  "action_path = [Key ''actions'', Idx 0]"

text \<open>
  Concrete inputs: the end-to-end example of the specification, a configuration, a
  simulated API that answers every request with a given status and text, an event
  without \<open>rocket_name\<close>, and an event of unlikely strings (empty, markup, not a
  URL), once more with its keys reordered among others.
\<close>

definition example_event :: json where
  "example_event =
     JObj [(''data'', JObj [
       (''rocket_name'', JStr ''Falcon 9''),
       (''payload_type'', JStr ''Satellite''),
       (''payload_description'', JStr ''Comms relay''),
       (''launch_time'', JStr ''2024-01-01T00:00:00Z''),
       (''launch_site'', JStr ''Cape Canaveral''),
       (''mission_patch'', JStr ''http://x/img.png''),
       (''video_stream'', JStr ''http://x/video'')])]"

definition example_config :: config where
  "example_config = \<lparr>WEBEX_BOT_TOKEN = ''secret'', WEBEX_ROOM_ID = Some ''room-1''\<rparr>"

definition replies :: "int \<Rightarrow> string \<Rightarrow> api" where
  "replies code txt request = Inr \<lparr>status_code = code, resp_text = txt\<rparr>"

definition example_missing :: json where
  "example_missing =
     JObj [(''data'', JObj [
       (''payload_type'', JStr ''Satellite''),
       (''payload_description'', JStr ''Comms relay''),
       (''launch_time'', JStr ''2024-01-01T00:00:00Z''),
       (''launch_site'', JStr ''Cape Canaveral''),
       (''mission_patch'', JStr ''http://x/img.png''),
       (''video_stream'', JStr ''http://x/video'')])]"

definition example_odd :: json where
  "example_odd =
     JObj [(''data'', JObj [
       (''rocket_name'', JStr ''''),
       (''payload_type'', JStr ''<b>&amp;</b>''),
       (''payload_description'', JStr ''   ''),
       (''launch_time'', JStr ''yesterday''),
       (''launch_site'', JStr ''null''),
       (''mission_patch'', JStr ''not a url''),
       (''video_stream'', JStr '''')])]"

definition example_odd_reordered :: json where
  "example_odd_reordered =
     JObj [(''id'', JStr ''evt-2''),
           (''data'', JObj [
       (''video_stream'', JStr ''''),
       (''mission_patch'', JStr ''not a url''),
       (''launch_site'', JStr ''null''),
       (''launch_time'', JStr ''yesterday''),
       (''payload_description'', JStr ''   ''),
       (''payload_type'', JStr ''<b>&amp;</b>''),
       (''rocket_name'', JStr ''''),
       (''crew'', JNum 0)])]"

section \<open>Properties of extraction and of the card\<close>

lemma and_then_Inr_iff: "and_then m f = Inr y \<longleftrightarrow> (\<exists>x. m = Inr x \<and> f x = Inr y)"
  by (cases m) (simp_all add: and_then_def)

lemma getitem_Inr_iff: "getitem j k = Inr v \<longleftrightarrow> (\<exists>kvs. j = JObj kvs \<and> map_of kvs k = Some v)"
  by (cases j) (simp_all split: option.splits)

lemma data_object_Some_iff:
  "data_object ev = Some d \<longleftrightarrow> (\<exists>kvs. ev = JObj kvs \<and> map_of kvs ''data'' = Some (JObj d))"
  by (auto simp: data_object_def split: json.splits option.splits)

lemma launch_details_Inr_iff:
  "launch_details ev = Inr l \<longleftrightarrow>
     field_value ev ''rocket_name'' = Some (rocket_name l) \<and>
     field_value ev ''payload_type'' = Some (payload_type l) \<and>
     field_value ev ''payload_description'' = Some (payload_description l) \<and>
     field_value ev ''launch_time'' = Some (launch_time l) \<and>
     field_value ev ''launch_site'' = Some (launch_site l) \<and>
     field_value ev ''mission_patch'' = Some (mission_patch l) \<and>
     field_value ev ''video_stream'' = Some (video_stream l)"
  (is "?L \<longleftrightarrow> ?R")
proof
  assume ?L
  then obtain kvs d where ev: "ev = JObj kvs" and d: "map_of kvs ''data'' = Some (JObj d)"
    and l: "map_of d ''rocket_name'' = Some (rocket_name l)"
      "map_of d ''payload_type'' = Some (payload_type l)"
      "map_of d ''payload_description'' = Some (payload_description l)"
      "map_of d ''launch_time'' = Some (launch_time l)"
      "map_of d ''launch_site'' = Some (launch_site l)"
      "map_of d ''mission_patch'' = Some (mission_patch l)"
      "map_of d ''video_stream'' = Some (video_stream l)"
    unfolding launch_details_def and_then_Inr_iff getitem_Inr_iff
    by auto
  then show ?R by (simp add: field_value_def data_object_def)
next
  assume r: ?R
  then obtain d where d: "data_object ev = Some d"
    by (auto simp: field_value_def split: option.splits)
  then obtain kvs where ev: "ev = JObj kvs" and kd: "map_of kvs ''data'' = Some (JObj d)"
    by (auto simp: data_object_Some_iff)
  from r d have "map_of d ''rocket_name'' = Some (rocket_name l)"
      "map_of d ''payload_type'' = Some (payload_type l)"
      "map_of d ''payload_description'' = Some (payload_description l)"
      "map_of d ''launch_time'' = Some (launch_time l)"
      "map_of d ''launch_site'' = Some (launch_site l)"
      "map_of d ''mission_patch'' = Some (mission_patch l)"
      "map_of d ''video_stream'' = Some (video_stream l)"
    by (simp_all add: field_value_def)
  then show ?L
    by (simp add: launch_details_def and_then_def ev kd)
qed

lemma well_formed_launch_details:
  assumes "well_formed ev"
  shows "\<exists>l. launch_details ev = Inr l"
proof -
  from assms obtain rn pt pd lt ls mp vs where
    "field_value ev ''rocket_name'' = Some rn"
    "field_value ev ''payload_type'' = Some pt"
    "field_value ev ''payload_description'' = Some pd"
    "field_value ev ''launch_time'' = Some lt"
    "field_value ev ''launch_site'' = Some ls"
    "field_value ev ''mission_patch'' = Some mp"
    "field_value ev ''video_stream'' = Some vs"
    by (auto simp: well_formed_def required_fields_def is_string_def split: option.splits)
  then have "launch_details ev =
      Inr \<lparr>rocket_name = rn, payload_type = pt, payload_description = pd,
           launch_time = lt, launch_site = ls, mission_patch = mp, video_stream = vs\<rparr>"
    by (simp add: launch_details_Inr_iff)
  then show ?thesis ..
qed

lemma handle_webhook_posts:
  assumes "launch_details ev = Inr l"
  shows "handle_webhook cfg post ev w =
     (w @ [\<lparr>req_url = api_url, req_headers = headers cfg,
             req_json = message_payload cfg (card_payload l)\<rparr>],
      case post \<lparr>req_url = api_url, req_headers = headers cfg,
                 req_json = message_payload cfg (card_payload l)\<rparr> of
        Inl e \<Rightarrow> Inl e | Inr response \<Rightarrow> Inr (respond response))"
  using assms by (simp add: handle_webhook_def Let_def)

lemma card_of_message:
  "lookup_path (message_payload cfg c) (card_path @ p) = lookup_path c p"
  by (simp add: message_payload_def card_path_def)

lemma card_factset:
  "lookup_path (card_payload l) factset_path =
     Some (JObj [(''type'', JStr ''FactSet''),
                 (''facts'', JArr [
                    JObj [(''title'', JStr ''Rocket Name''), (''value'', rocket_name l)],
                    JObj [(''title'', JStr ''Payload Type''), (''value'', payload_type l)],
                    JObj [(''title'', JStr ''Payload Description''),
                          (''value'', payload_description l)],
                    JObj [(''title'', JStr ''Launch Time''), (''value'', launch_time l)],
                    JObj [(''title'', JStr ''Launch Site''), (''value'', launch_site l)]])])"
  by (simp add: card_payload_def factset_path_def)

lemma card_image:
  "lookup_path (card_payload l) image_path =
     Some (JObj [(''type'', JStr ''Image''), (''url'', mission_patch l),
                 (''size'', JStr ''Small''), (''style'', JStr ''Person'')])"
  by (simp add: card_payload_def image_path_def)

lemma card_action:
  "lookup_path (card_payload l) action_path =
     Some (JObj [(''type'', JStr ''Action.OpenUrl''), (''title'', JStr ''Watch the Launch''),
                 (''url'', video_stream l)])"
  by (simp add: card_payload_def action_path_def)

lemma card_header:
  "lookup_path (card_payload l) header_path =
     Some (JObj [(''type'', JStr ''TextBlock''), (''text'', JStr ''Rocket Launch Successful!''),
                 (''weight'', JStr ''Bolder''), (''size'', JStr ''Large''),
                 (''color'', JStr ''Accent''), (''wrap'', JBool True)])"
  by (simp add: card_payload_def header_path_def)

lemma example_fields:
  "field_value example_event ''rocket_name'' = Some (JStr ''Falcon 9'')"
  "field_value example_event ''payload_type'' = Some (JStr ''Satellite'')"
  "field_value example_event ''payload_description'' = Some (JStr ''Comms relay'')"
  "field_value example_event ''launch_time'' = Some (JStr ''2024-01-01T00:00:00Z'')"
  "field_value example_event ''launch_site'' = Some (JStr ''Cape Canaveral'')"
  "field_value example_event ''mission_patch'' = Some (JStr ''http://x/img.png'')"
  "field_value example_event ''video_stream'' = Some (JStr ''http://x/video'')"
  by (simp_all add: field_value_def data_object_def example_event_def)

lemma example_well_formed: "well_formed example_event"
  by (simp add: well_formed_def required_fields_def is_string_def example_fields)

lemma well_formed_posts:
  assumes "well_formed ev"
  shows "\<exists>l. launch_details ev = Inr l \<and>
     handle_webhook cfg post ev w =
     (w @ [\<lparr>req_url = api_url, req_headers = headers cfg,
             req_json = message_payload cfg (card_payload l)\<rparr>],
      case post \<lparr>req_url = api_url, req_headers = headers cfg,
                 req_json = message_payload cfg (card_payload l)\<rparr> of
        Inl e \<Rightarrow> Inl e | Inr response \<Rightarrow> Inr (respond response))"
  using well_formed_launch_details [OF assms] handle_webhook_posts by blast

lemma answered:
  assumes "well_formed ev"
    and "fst (handle_webhook cfg post ev w) = w @ [request]"
    and "post request = Inr r"
  shows "snd (handle_webhook cfg post ev w) = Inr (respond r)"
proof -
  from well_formed_posts [OF assms(1), of cfg post w] obtain l where
    h: "handle_webhook cfg post ev w =
     (w @ [\<lparr>req_url = api_url, req_headers = headers cfg,
             req_json = message_payload cfg (card_payload l)\<rparr>],
      case post \<lparr>req_url = api_url, req_headers = headers cfg,
                 req_json = message_payload cfg (card_payload l)\<rparr> of
        Inl e \<Rightarrow> Inl e | Inr response \<Rightarrow> Inr (respond response))"
    by blast
  with assms(2) have "request = \<lparr>req_url = api_url, req_headers = headers cfg,
             req_json = message_payload cfg (card_payload l)\<rparr>"
    by simp
  with h assms(3) show ?thesis by simp
qed

lemma ok_iff: "ok r \<longleftrightarrow> \<not> (400 \<le> status_code r \<and> status_code r < 600)"
  by (auto simp: ok_def raise_for_status_def)

lemma example_posts:
  "fst (handle_webhook example_config (replies c t) example_event []) =
     [] @ [\<lparr>req_url = api_url, req_headers = headers example_config,
            req_json = message_payload example_config (card_payload
              \<lparr>rocket_name = JStr ''Falcon 9'', payload_type = JStr ''Satellite'',
               payload_description = JStr ''Comms relay'',
               launch_time = JStr ''2024-01-01T00:00:00Z'',
               launch_site = JStr ''Cape Canaveral'',
               mission_patch = JStr ''http://x/img.png'',
               video_stream = JStr ''http://x/video''\<rparr>)\<rparr>]"
proof -
  have "launch_details example_event =
      Inr \<lparr>rocket_name = JStr ''Falcon 9'', payload_type = JStr ''Satellite'',
               payload_description = JStr ''Comms relay'',
               launch_time = JStr ''2024-01-01T00:00:00Z'',
               launch_site = JStr ''Cape Canaveral'',
               mission_patch = JStr ''http://x/img.png'',
               video_stream = JStr ''http://x/video''\<rparr>"
    by (simp add: launch_details_Inr_iff example_fields)
  then show ?thesis by (simp add: handle_webhook_posts)
qed

lemma and_then_Inl_iff:
  "and_then m f = Inl e \<longleftrightarrow> m = Inl e \<or> (\<exists>x. m = Inr x \<and> f x = Inl e)"
  by (cases m) (simp_all add: and_then_def)

lemma getitem_Inl: "getitem j k = Inl e \<Longrightarrow> e = TypeError \<or> e = KeyError k"
  by (cases j) (auto split: option.splits)

lemma launch_details_Inl:
  assumes "launch_details ev = Inl e"
  shows "e = TypeError \<or> e \<in> KeyError ` set (''data'' # required_fields)"
  using assms unfolding launch_details_def and_then_Inl_iff required_fields_def
  by (auto dest!: getitem_Inl)

lemma data_object_None_field: "data_object ev = None \<Longrightarrow> field_value ev k = None"
  by (simp add: field_value_def)

lemma missing_field_faults:
  assumes "k \<in> set required_fields" and "field_value ev k = None"
  shows "\<exists>e. launch_details ev = Inl e"
proof (cases "launch_details ev")
  case (Inl e)
  then show ?thesis by blast
next
  case (Inr l)
  then have "\<forall>k\<in>set required_fields. field_value ev k \<noteq> None"
    by (simp add: launch_details_Inr_iff required_fields_def)
  with assms show ?thesis by blast
qed

lemma rocket_name_required: "''rocket_name'' \<in> set required_fields"
  by (simp add: required_fields_def)

lemma example_missing_field: "field_value example_missing ''rocket_name'' = None"
  by (simp add: field_value_def data_object_def example_missing_def)

lemma well_formed_strings:
  assumes "well_formed ev"
  shows "\<exists>rn pt pd lt ls mp vs.
     field_value ev ''rocket_name'' = Some (JStr rn) \<and>
     field_value ev ''payload_type'' = Some (JStr pt) \<and>
     field_value ev ''payload_description'' = Some (JStr pd) \<and>
     field_value ev ''launch_time'' = Some (JStr lt) \<and>
     field_value ev ''launch_site'' = Some (JStr ls) \<and>
     field_value ev ''mission_patch'' = Some (JStr mp) \<and>
     field_value ev ''video_stream'' = Some (JStr vs)"
proof -
  have s: "is_string v \<Longrightarrow> \<exists>s. v = Some (JStr s)" for v
    by (auto simp: is_string_def split: option.splits json.splits)
  from assms have h: "is_string (field_value ev ''rocket_name'')"
    "is_string (field_value ev ''payload_type'')"
    "is_string (field_value ev ''payload_description'')"
    "is_string (field_value ev ''launch_time'')"
    "is_string (field_value ev ''launch_site'')"
    "is_string (field_value ev ''mission_patch'')"
    "is_string (field_value ev ''video_stream'')"
    by (simp_all add: well_formed_def required_fields_def)
  from s [OF h(1)] obtain rn where 1: "field_value ev ''rocket_name'' = Some (JStr rn)" ..
  from s [OF h(2)] obtain pt where 2: "field_value ev ''payload_type'' = Some (JStr pt)" ..
  from s [OF h(3)] obtain pd where 3: "field_value ev ''payload_description'' = Some (JStr pd)" ..
  from s [OF h(4)] obtain lt where 4: "field_value ev ''launch_time'' = Some (JStr lt)" ..
  from s [OF h(5)] obtain ls where 5: "field_value ev ''launch_site'' = Some (JStr ls)" ..
  from s [OF h(6)] obtain mp where 6: "field_value ev ''mission_patch'' = Some (JStr mp)" ..
  from s [OF h(7)] obtain vs where 7: "field_value ev ''video_stream'' = Some (JStr vs)" ..
  show ?thesis
    by (intro exI conjI) (rule 1 2 3 4 5 6 7)+
qed

lemma example_odd_fields:
  "field_value example_odd ''rocket_name'' = Some (JStr '''')"
  "field_value example_odd ''payload_type'' = Some (JStr ''<b>&amp;</b>'')"
  "field_value example_odd ''payload_description'' = Some (JStr ''   '')"
  "field_value example_odd ''launch_time'' = Some (JStr ''yesterday'')"
  "field_value example_odd ''launch_site'' = Some (JStr ''null'')"
  "field_value example_odd ''mission_patch'' = Some (JStr ''not a url'')"
  "field_value example_odd ''video_stream'' = Some (JStr '''')"
  by (simp_all add: field_value_def data_object_def example_odd_def)

lemma example_odd_reordered_fields:
  "field_value example_odd_reordered ''rocket_name'' = Some (JStr '''')"
  "field_value example_odd_reordered ''payload_type'' = Some (JStr ''<b>&amp;</b>'')"
  "field_value example_odd_reordered ''payload_description'' = Some (JStr ''   '')"
  "field_value example_odd_reordered ''launch_time'' = Some (JStr ''yesterday'')"
  "field_value example_odd_reordered ''launch_site'' = Some (JStr ''null'')"
  "field_value example_odd_reordered ''mission_patch'' = Some (JStr ''not a url'')"
  "field_value example_odd_reordered ''video_stream'' = Some (JStr '''')"
  by (simp_all add: field_value_def data_object_def example_odd_reordered_def)

lemma example_odd_well_formed: "well_formed example_odd"
  by (simp add: well_formed_def required_fields_def is_string_def example_odd_fields)

lemma example_odd_reordered_well_formed: "well_formed example_odd_reordered"
  by (simp add: well_formed_def required_fields_def is_string_def example_odd_reordered_fields)

lemma odd_examples_agree:
  "\<forall>k\<in>set required_fields. field_value example_odd k = field_value example_odd_reordered k"
  by (simp add: required_fields_def example_odd_fields example_odd_reordered_fields)

lemma first_five_fields:
  "take 5 required_fields =
     [''rocket_name'', ''payload_type'', ''payload_description'', ''launch_time'',
      ''launch_site'']"
  by (simp add: required_fields_def)

lemma card_leaves:
  "leaves (card_payload l) =
     [JStr ''http://adaptivecards.io/schemas/adaptive-card.json'', JStr ''AdaptiveCard'',
      JStr ''1.3'',
      JStr ''TextBlock'', JStr ''Rocket Launch Successful!'', JStr ''Bolder'', JStr ''Large'',
      JStr ''Accent'', JBool True,
      JStr ''ColumnSet'', JStr ''Column'', JStr ''auto''] @
     leaves (JStr ''Image'') @ leaves (mission_patch l) @
     [JStr ''Small'', JStr ''Person'',
      JStr ''Column'', JStr ''stretch'',
      JStr ''TextBlock'', JStr ''Rocket Launch Details'', JStr ''Bolder'', JBool True,
      JStr ''FactSet'',
      JStr ''Rocket Name''] @ leaves (rocket_name l) @
     [JStr ''Payload Type''] @ leaves (payload_type l) @
     [JStr ''Payload Description''] @ leaves (payload_description l) @
     [JStr ''Launch Time''] @ leaves (launch_time l) @
     [JStr ''Launch Site''] @ leaves (launch_site l) @
     [JStr ''Action.OpenUrl'', JStr ''Watch the Launch''] @ leaves (video_stream l)"
  by (simp add: card_payload_def)

lemma card_facts:
  "lookup_path (card_payload l) (factset_path @ [Key ''facts'']) =
     Some (JArr [
        JObj [(''title'', JStr ''Rocket Name''), (''value'', rocket_name l)],
        JObj [(''title'', JStr ''Payload Type''), (''value'', payload_type l)],
        JObj [(''title'', JStr ''Payload Description''), (''value'', payload_description l)],
        JObj [(''title'', JStr ''Launch Time''), (''value'', launch_time l)],
        JObj [(''title'', JStr ''Launch Site''), (''value'', launch_site l)]])"
  by (simp add: card_payload_def factset_path_def)

lemma message_card: "lookup_path (message_payload cfg c) card_path = Some c"
  by (simp add: message_payload_def card_path_def)

lemma message_text:
  "lookup_path (message_payload cfg c) [Key ''text''] = Some (JStr ''New Rocket Launch Detected'')"
  by (simp add: message_payload_def)

section \<open>The claims\<close>

text \<open>
  C1. For every inbound event whose data object holds the seven fields as strings, the
  handler posts one request whose card carries the seven values unchanged in fixed
  slots: rocket name, payload type, payload description, launch time and launch site as
  the values of the five facts of the FactSet, the mission patch as the url of the
  Image, the video stream as the url of the Action.OpenUrl.
\<close>

theorem fields_copied_verbatim:
  assumes "field_value ev ''rocket_name'' = Some (JStr rn)"
    and "field_value ev ''payload_type'' = Some (JStr pt)"
    and "field_value ev ''payload_description'' = Some (JStr pd)"
    and "field_value ev ''launch_time'' = Some (JStr lt)"
    and "field_value ev ''launch_site'' = Some (JStr ls)"
    and "field_value ev ''mission_patch'' = Some (JStr mp)"
    and "field_value ev ''video_stream'' = Some (JStr vs)"
  shows "\<exists>request. fst (handle_webhook cfg post ev w) = w @ [request] \<and>
     lookup_path (req_json request) (card_path @ factset_path) =
       Some (JObj [(''type'', JStr ''FactSet''),
                   (''facts'', JArr [
                      JObj [(''title'', JStr ''Rocket Name''), (''value'', JStr rn)],
                      JObj [(''title'', JStr ''Payload Type''), (''value'', JStr pt)],
                      JObj [(''title'', JStr ''Payload Description''), (''value'', JStr pd)],
                      JObj [(''title'', JStr ''Launch Time''), (''value'', JStr lt)],
                      JObj [(''title'', JStr ''Launch Site''), (''value'', JStr ls)]])]) \<and>
     lookup_path (req_json request) (card_path @ image_path) =
       Some (JObj [(''type'', JStr ''Image''), (''url'', JStr mp),
                   (''size'', JStr ''Small''), (''style'', JStr ''Person'')]) \<and>
     lookup_path (req_json request) (card_path @ action_path) =
       Some (JObj [(''type'', JStr ''Action.OpenUrl''),
                   (''title'', JStr ''Watch the Launch''), (''url'', JStr vs)])"
proof -
  let ?l = "\<lparr>rocket_name = JStr rn, payload_type = JStr pt, payload_description = JStr pd,
             launch_time = JStr lt, launch_site = JStr ls, mission_patch = JStr mp,
             video_stream = JStr vs\<rparr>"
  from assms have "launch_details ev = Inr ?l"
    by (simp add: launch_details_Inr_iff)
  then have "fst (handle_webhook cfg post ev w) =
      w @ [\<lparr>req_url = api_url, req_headers = headers cfg,
              req_json = message_payload cfg (card_payload ?l)\<rparr>]"
    by (simp add: handle_webhook_posts)
  moreover have "lookup_path (message_payload cfg (card_payload ?l)) (card_path @ factset_path) =
       Some (JObj [(''type'', JStr ''FactSet''),
                   (''facts'', JArr [
                      JObj [(''title'', JStr ''Rocket Name''), (''value'', JStr rn)],
                      JObj [(''title'', JStr ''Payload Type''), (''value'', JStr pt)],
                      JObj [(''title'', JStr ''Payload Description''), (''value'', JStr pd)],
                      JObj [(''title'', JStr ''Launch Time''), (''value'', JStr lt)],
                      JObj [(''title'', JStr ''Launch Site''), (''value'', JStr ls)]])])"
    by (simp only: card_of_message card_factset) simp
  moreover have "lookup_path (message_payload cfg (card_payload ?l)) (card_path @ image_path) =
       Some (JObj [(''type'', JStr ''Image''), (''url'', JStr mp),
                   (''size'', JStr ''Small''), (''style'', JStr ''Person'')])"
    by (simp only: card_of_message card_image) simp
  moreover have "lookup_path (message_payload cfg (card_payload ?l)) (card_path @ action_path) =
       Some (JObj [(''type'', JStr ''Action.OpenUrl''),
                   (''title'', JStr ''Watch the Launch''), (''url'', JStr vs)])"
    by (simp only: card_of_message card_action) simp
  ultimately show ?thesis by simp
qed

text \<open>The end-to-end example of the specification.\<close>

theorem fields_copied_verbatim_witness:
  "field_value example_event ''rocket_name'' = Some (JStr ''Falcon 9'') \<and>
   field_value example_event ''payload_type'' = Some (JStr ''Satellite'') \<and>
   field_value example_event ''payload_description'' = Some (JStr ''Comms relay'') \<and>
   field_value example_event ''launch_time'' = Some (JStr ''2024-01-01T00:00:00Z'') \<and>
   field_value example_event ''launch_site'' = Some (JStr ''Cape Canaveral'') \<and>
   field_value example_event ''mission_patch'' = Some (JStr ''http://x/img.png'') \<and>
   field_value example_event ''video_stream'' = Some (JStr ''http://x/video'') \<and>
   (\<exists>request. fst (handle_webhook example_config (replies 200 ''{}'') example_event []) = [] @ [request] \<and>
     lookup_path (req_json request) (card_path @ factset_path) =
       Some (JObj [(''type'', JStr ''FactSet''),
                   (''facts'', JArr [
                      JObj [(''title'', JStr ''Rocket Name''), (''value'', JStr ''Falcon 9'')],
                      JObj [(''title'', JStr ''Payload Type''), (''value'', JStr ''Satellite'')],
                      JObj [(''title'', JStr ''Payload Description''), (''value'', JStr ''Comms relay'')],
                      JObj [(''title'', JStr ''Launch Time''), (''value'', JStr ''2024-01-01T00:00:00Z'')],
                      JObj [(''title'', JStr ''Launch Site''), (''value'', JStr ''Cape Canaveral'')]])]) \<and>
     lookup_path (req_json request) (card_path @ image_path) =
       Some (JObj [(''type'', JStr ''Image''), (''url'', JStr ''http://x/img.png''),
                   (''size'', JStr ''Small''), (''style'', JStr ''Person'')]) \<and>
     lookup_path (req_json request) (card_path @ action_path) =
       Some (JObj [(''type'', JStr ''Action.OpenUrl''),
                   (''title'', JStr ''Watch the Launch''), (''url'', JStr ''http://x/video'')]))"
  using fields_copied_verbatim [OF example_fields, of example_config "replies 200 ''{}''" "[]"]
  by (simp only: example_fields simp_thms)

text \<open>
  C2, as claimed, fails: status 304 is not a success status (it is not in 200 to 299),
  and the handler answers \<open>success: true\<close> with status 200 instead of mirroring it,
  since \<^verbatim>\<open>Response.ok\<close> is false only for the statuses from 400 to 599.
\<close>

theorem status_304_not_mirrored_counterexample:
  "\<not> (200 \<le> (304 :: int) \<and> (304 :: int) < 300) \<and>
   snd (handle_webhook example_config (replies 304 ''not modified'') example_event []) =
     Inr \<lparr>resp_body = Json (JObj [(''success'', JBool True)]), resp_status = 200\<rparr> \<and>
   snd (handle_webhook example_config (replies 304 ''not modified'') example_event []) \<noteq>
     Inr \<lparr>resp_body = Json (JObj [(''success'', JBool False),
                                  (''message'', JStr ''not modified'')]),
          resp_status = 304\<rparr>"
proof -
  have a: "replies 304 ''not modified'' x = Inr \<lparr>status_code = 304, resp_text = ''not modified''\<rparr>" for x
    by (simp add: replies_def)
  from answered [OF example_well_formed example_posts a]
  show ?thesis by (simp add: respond_def ok_iff)
qed

text \<open>
  C2, amended. For every well-formed event: when the messaging API answers the posted
  request with a client or server error status (from 400 to 599), the handler answers
  with that same status and the JSON body holding \<open>success: false\<close> and, as
  \<open>message\<close>, the text of the API's response.
\<close>

theorem error_status_mirrored:
  assumes "well_formed ev"
    and "fst (handle_webhook cfg post ev w) = w @ [request]"
    and "post request = Inr r"
    and "400 \<le> status_code r \<and> status_code r < 600"
  shows "snd (handle_webhook cfg post ev w) =
     Inr \<lparr>resp_body = Json (JObj [(''success'', JBool False),
                                  (''message'', JStr (resp_text r))]),
          resp_status = status_code r\<rparr>"
  using answered [OF assms(1-3)] assms(4) by (simp add: respond_def ok_iff)

text \<open>The theorem at the example event, answered with status 400.\<close>

theorem error_status_mirrored_witness:
  "well_formed example_event \<and>
   ((400 :: int) \<le> 400 \<and> (400 :: int) < 600) \<and>
   snd (handle_webhook example_config (replies 400 ''bad request'') example_event []) =
     Inr \<lparr>resp_body = Json (JObj [(''success'', JBool False),
                                  (''message'', JStr ''bad request'')]),
          resp_status = 400\<rparr>"
proof -
  have a: "replies 400 ''bad request'' x = Inr \<lparr>status_code = 400, resp_text = ''bad request''\<rparr>" for x
    by (simp add: replies_def)
  have k: "400 \<le> status_code \<lparr>status_code = 400, resp_text = ''bad request''\<rparr> \<and>
      status_code \<lparr>status_code = 400, resp_text = ''bad request''\<rparr> < 600"
    by simp
  from error_status_mirrored [OF example_well_formed example_posts a k]
  show ?thesis using example_well_formed by simp
qed

text \<open>
  C3. For every well-formed event: when the messaging API answers the posted request
  with a success status, the handler answers with the JSON body \<open>success: true\<close> alone
  and status 200, whatever the text of the API's response.
\<close>

theorem success_acknowledged:
  assumes "well_formed ev"
    and "fst (handle_webhook cfg post ev w) = w @ [request]"
    and "post request = Inr r"
    and "ok r"
  shows "snd (handle_webhook cfg post ev w) =
     Inr \<lparr>resp_body = Json (JObj [(''success'', JBool True)]), resp_status = 200\<rparr>"
  using answered [OF assms(1-3)] assms(4) by (simp add: respond_def)

text \<open>The theorem at the example event, answered with status 200.\<close>

theorem success_acknowledged_witness:
  "well_formed example_event \<and>
   ok \<lparr>status_code = 200, resp_text = ''anything''\<rparr> \<and>
   snd (handle_webhook example_config (replies 200 ''anything'') example_event []) =
     Inr \<lparr>resp_body = Json (JObj [(''success'', JBool True)]), resp_status = 200\<rparr>"
proof -
  have k: "ok \<lparr>status_code = 200, resp_text = ''anything''\<rparr>"
    by (simp add: ok_iff)
  have a: "replies 200 ''anything'' x = Inr \<lparr>status_code = 200, resp_text = ''anything''\<rparr>" for x
    by (simp add: replies_def)
  from success_acknowledged [OF example_well_formed example_posts a k]
  show ?thesis using k example_well_formed by simp
qed

text \<open>
  C4. For every body that has no data object, or whose data object lacks one of the
  seven fields, the handler ends with an exception raised by a subscription (a
  \<open>TypeError\<close> or a \<open>KeyError\<close>), not with a response, and nothing has been
  posted to the messaging API: the requests posted so far are unchanged.
\<close>

theorem malformed_faults_before_post:
  assumes "data_object ev = None \<or> (k \<in> set required_fields \<and> field_value ev k = None)"
  shows "\<exists>e. handle_webhook cfg post ev w = (w, Inl e) \<and>
     (e = TypeError \<or> e \<in> KeyError ` set (''data'' # required_fields))"
proof -
  from assms have "\<exists>k. k \<in> set required_fields \<and> field_value ev k = None"
    using data_object_None_field rocket_name_required by blast
  then obtain e where e: "launch_details ev = Inl e"
    using missing_field_faults by blast
  then have "handle_webhook cfg post ev w = (w, Inl e)"
    by (simp add: handle_webhook_def)
  with launch_details_Inl [OF e] show ?thesis by blast
qed

text \<open>The theorem at an event without \<open>rocket_name\<close>.\<close>

theorem malformed_faults_before_post_witness:
  "(data_object example_missing = None \<or>
      (''rocket_name'' \<in> set required_fields \<and>
       field_value example_missing ''rocket_name'' = None)) \<and>
   (\<exists>e. handle_webhook example_config (replies 200 ''{}'') example_missing [] = ([], Inl e) \<and>
     (e = TypeError \<or> e \<in> KeyError ` set (''data'' # required_fields)))"
proof -
  have h: "data_object example_missing = None \<or>
      (''rocket_name'' \<in> set required_fields \<and>
       field_value example_missing ''rocket_name'' = None)"
    using rocket_name_required example_missing_field by blast
  from malformed_faults_before_post [OF h, of example_config "replies 200 ''{}''" "[]"] h
  show ?thesis by blast
qed

text \<open>
  C5. For every well-formed event the handler posts exactly one request: to
  \<^verbatim>\<open>https://webexapis.com/v1/messages\<close>, with the headers Content-Type
  \<^verbatim>\<open>application/json\<close> and Authorization \<^verbatim>\<open>Bearer\<close> followed by the configured
  token, and with a body of the room id from the configuration (null when the
  variable is unset), one attachment of content type
  \<^verbatim>\<open>application/vnd.microsoft.card.adaptive\<close> whose content is the adaptive card of
  the event, and the text \<^verbatim>\<open>New Rocket Launch Detected\<close>.
\<close>

theorem one_post_to_messages_api:
  assumes "well_formed ev"
  shows "\<exists>l. launch_details ev = Inr l \<and>
     fst (handle_webhook cfg post ev w) =
       w @ [\<lparr>req_url = ''https://webexapis.com/v1/messages'',
              req_headers = [(''Content-Type'', ''application/json''),
                             (''Authorization'', ''Bearer '' @ WEBEX_BOT_TOKEN cfg)],
              req_json = JObj [
                (''roomId'', case WEBEX_ROOM_ID cfg of None \<Rightarrow> JNull | Some room \<Rightarrow> JStr room),
                (''attachments'', JArr [
                   JObj [(''contentType'', JStr ''application/vnd.microsoft.card.adaptive''),
                         (''content'', card_payload l)]]),
                (''text'', JStr ''New Rocket Launch Detected'')]\<rparr>] \<and>
     lookup_path (card_payload l) [Key ''type''] = Some (JStr ''AdaptiveCard'')"
proof -
  from well_formed_launch_details [OF assms] obtain l where l: "launch_details ev = Inr l" ..
  have "lookup_path (card_payload l) [Key ''type''] = Some (JStr ''AdaptiveCard'')"
    by (simp add: card_payload_def)
  with l show ?thesis
    by (simp add: handle_webhook_posts api_url_def headers_def message_payload_def
        json_of_getenv_def)
qed

text \<open>The theorem at the example event of the specification.\<close>

theorem one_post_to_messages_api_witness:
  "well_formed example_event \<and>
   (\<exists>l. launch_details example_event = Inr l \<and>
     fst (handle_webhook example_config (replies 200 ''{}'') example_event []) =
       [] @ [\<lparr>req_url = ''https://webexapis.com/v1/messages'',
              req_headers = [(''Content-Type'', ''application/json''),
                             (''Authorization'', ''Bearer '' @ WEBEX_BOT_TOKEN example_config)],
              req_json = JObj [
                (''roomId'', case WEBEX_ROOM_ID example_config of None \<Rightarrow> JNull
                             | Some room \<Rightarrow> JStr room),
                (''attachments'', JArr [
                   JObj [(''contentType'', JStr ''application/vnd.microsoft.card.adaptive''),
                         (''content'', card_payload l)]]),
                (''text'', JStr ''New Rocket Launch Detected'')]\<rparr>] \<and>
     lookup_path (card_payload l) [Key ''type''] = Some (JStr ''AdaptiveCard''))"
  using one_post_to_messages_api [OF example_well_formed, of example_config "replies 200 ''{}''" "[]"]
    example_well_formed
  by blast

text \<open>
  C6. The outbound request is a fixed function of the seven field values: two
  well-formed events that agree on the seven fields give the same result and the
  same posted request, whatever the API answers; and for every well-formed event the
  posted request is the one written out below, the constant message and card with the
  seven strings of the event in their slots as they came. No string changes the shape
  of the payload, is altered or is refused.
\<close>

theorem payload_is_fixed_function_of_fields:
  assumes "well_formed ev" and "well_formed ev'"
    and "\<forall>k\<in>set required_fields. field_value ev k = field_value ev' k"
  shows "handle_webhook cfg post ev w = handle_webhook cfg post ev' w \<and>
     fst (handle_webhook cfg post ev w) = fst (handle_webhook cfg post' ev' w) \<and>
     (\<exists>rn pt pd lt ls mp vs.
        map (field_value ev) required_fields =
          [Some (JStr rn), Some (JStr pt), Some (JStr pd), Some (JStr lt), Some (JStr ls),
           Some (JStr mp), Some (JStr vs)] \<and>
        fst (handle_webhook cfg post ev w) =
          w @ [\<lparr>req_url = ''https://webexapis.com/v1/messages'',
                 req_headers = [(''Content-Type'', ''application/json''),
                                (''Authorization'', ''Bearer '' @ WEBEX_BOT_TOKEN cfg)],
                 req_json = JObj [
       (''roomId'', case WEBEX_ROOM_ID cfg of None \<Rightarrow> JNull | Some room \<Rightarrow> JStr room),
       (''attachments'', JArr [
          JObj [
            (''contentType'', JStr ''application/vnd.microsoft.card.adaptive''),
            (''content'', JObj [
       (''$schema'', JStr ''http://adaptivecards.io/schemas/adaptive-card.json''),
       (''type'', JStr ''AdaptiveCard''),
       (''version'', JStr ''1.3''),
       (''body'', JArr [
          JObj [
            (''type'', JStr ''TextBlock''),
            (''text'', JStr ''Rocket Launch Successful!''),
            (''weight'', JStr ''Bolder''),
            (''size'', JStr ''Large''),
            (''color'', JStr ''Accent''),
            (''wrap'', JBool True)],
          JObj [
            (''type'', JStr ''ColumnSet''),
            (''columns'', JArr [
               JObj [
                 (''type'', JStr ''Column''),
                 (''width'', JStr ''auto''),
                 (''items'', JArr [
                    JObj [
                      (''type'', JStr ''Image''),
                      (''url'', JStr mp),
                      (''size'', JStr ''Small''),
                      (''style'', JStr ''Person'')]])],
               JObj [
                 (''type'', JStr ''Column''),
                 (''width'', JStr ''stretch''),
                 (''items'', JArr [
                    JObj [
                      (''type'', JStr ''TextBlock''),
                      (''text'', JStr ''Rocket Launch Details''),
                      (''weight'', JStr ''Bolder''),
                      (''wrap'', JBool True)],
                    JObj [
                      (''type'', JStr ''FactSet''),
                      (''facts'', JArr [
                         JObj [(''title'', JStr ''Rocket Name''), (''value'', JStr rn)],
                         JObj [(''title'', JStr ''Payload Type''), (''value'', JStr pt)],
                         JObj [(''title'', JStr ''Payload Description''),
                               (''value'', JStr pd)],
                         JObj [(''title'', JStr ''Launch Time''), (''value'', JStr lt)],
                         JObj [(''title'', JStr ''Launch Site''),
                               (''value'', JStr ls)]])]])]])]]),
       (''actions'', JArr [
          JObj [
            (''type'', JStr ''Action.OpenUrl''),
            (''title'', JStr ''Watch the Launch''),
            (''url'', JStr vs)]])])]]),
       (''text'', JStr ''New Rocket Launch Detected'')]\<rparr>])"
proof -
  from well_formed_strings [OF assms(1)] obtain rn pt pd lt ls mp vs where
    f: "field_value ev ''rocket_name'' = Some (JStr rn)"
      "field_value ev ''payload_type'' = Some (JStr pt)"
      "field_value ev ''payload_description'' = Some (JStr pd)"
      "field_value ev ''launch_time'' = Some (JStr lt)"
      "field_value ev ''launch_site'' = Some (JStr ls)"
      "field_value ev ''mission_patch'' = Some (JStr mp)"
      "field_value ev ''video_stream'' = Some (JStr vs)"
    by blast
  let ?l = "\<lparr>rocket_name = JStr rn, payload_type = JStr pt, payload_description = JStr pd,
             launch_time = JStr lt, launch_site = JStr ls, mission_patch = JStr mp,
             video_stream = JStr vs\<rparr>"
  from f have l: "launch_details ev = Inr ?l"
    by (simp add: launch_details_Inr_iff)
  from f assms(3) have l': "launch_details ev' = Inr ?l"
    by (simp add: launch_details_Inr_iff required_fields_def)
  have same: "handle_webhook cfg post ev w = handle_webhook cfg post ev' w"
    using l l' by (simp add: handle_webhook_posts)
  have indep: "fst (handle_webhook cfg post ev w) = fst (handle_webhook cfg post' ev' w)"
    using l l' by (simp add: handle_webhook_posts)
  have vals: "map (field_value ev) required_fields =
          [Some (JStr rn), Some (JStr pt), Some (JStr pd), Some (JStr lt), Some (JStr ls),
           Some (JStr mp), Some (JStr vs)]"
    using f by (simp add: required_fields_def)
  have sent: "fst (handle_webhook cfg post ev w) =
      w @ [\<lparr>req_url = api_url, req_headers = headers cfg,
              req_json = message_payload cfg (card_payload ?l)\<rparr>]"
    using l by (simp add: handle_webhook_posts)
  show ?thesis
    apply (intro conjI)
      apply (rule same)
     apply (rule indep)
    apply (rule exI [where x = rn], rule exI [where x = pt], rule exI [where x = pd],
        rule exI [where x = lt], rule exI [where x = ls], rule exI [where x = mp],
        rule exI [where x = vs])
    apply (rule conjI)
     apply (rule vals)
    apply (simp add: sent api_url_def headers_def message_payload_def card_payload_def
        json_of_getenv_def)
    done
qed

text \<open>
  The theorem at an event of unlikely strings and the same event with its keys
  reordered among others.
\<close>

theorem payload_is_fixed_function_of_fields_witness:
  "well_formed example_odd \<and> well_formed example_odd_reordered \<and>
   map (field_value example_odd) required_fields =
     map (field_value example_odd_reordered) required_fields \<and>
   (handle_webhook example_config (replies 200 ''{}'') example_odd [] = handle_webhook example_config (replies 200 ''{}'') example_odd_reordered [] \<and>
     fst (handle_webhook example_config (replies 200 ''{}'') example_odd []) = fst (handle_webhook example_config (replies 503 ''down'') example_odd_reordered []) \<and>
     (\<exists>rn pt pd lt ls mp vs.
        map (field_value example_odd) required_fields =
          [Some (JStr rn), Some (JStr pt), Some (JStr pd), Some (JStr lt), Some (JStr ls),
           Some (JStr mp), Some (JStr vs)] \<and>
        fst (handle_webhook example_config (replies 200 ''{}'') example_odd []) =
          [] @ [\<lparr>req_url = ''https://webexapis.com/v1/messages'',
                 req_headers = [(''Content-Type'', ''application/json''),
                                (''Authorization'', ''Bearer '' @ WEBEX_BOT_TOKEN example_config)],
                 req_json = JObj [
       (''roomId'', case WEBEX_ROOM_ID example_config of None \<Rightarrow> JNull | Some room \<Rightarrow> JStr room),
       (''attachments'', JArr [
          JObj [
            (''contentType'', JStr ''application/vnd.microsoft.card.adaptive''),
            (''content'', JObj [
       (''$schema'', JStr ''http://adaptivecards.io/schemas/adaptive-card.json''),
       (''type'', JStr ''AdaptiveCard''),
       (''version'', JStr ''1.3''),
       (''body'', JArr [
          JObj [
            (''type'', JStr ''TextBlock''),
            (''text'', JStr ''Rocket Launch Successful!''),
            (''weight'', JStr ''Bolder''),
            (''size'', JStr ''Large''),
            (''color'', JStr ''Accent''),
            (''wrap'', JBool True)],
          JObj [
            (''type'', JStr ''ColumnSet''),
            (''columns'', JArr [
               JObj [
                 (''type'', JStr ''Column''),
                 (''width'', JStr ''auto''),
                 (''items'', JArr [
                    JObj [
                      (''type'', JStr ''Image''),
                      (''url'', JStr mp),
                      (''size'', JStr ''Small''),
                      (''style'', JStr ''Person'')]])],
               JObj [
                 (''type'', JStr ''Column''),
                 (''width'', JStr ''stretch''),
                 (''items'', JArr [
                    JObj [
                      (''type'', JStr ''TextBlock''),
                      (''text'', JStr ''Rocket Launch Details''),
                      (''weight'', JStr ''Bolder''),
                      (''wrap'', JBool True)],
                    JObj [
                      (''type'', JStr ''FactSet''),
                      (''facts'', JArr [
                         JObj [(''title'', JStr ''Rocket Name''), (''value'', JStr rn)],
                         JObj [(''title'', JStr ''Payload Type''), (''value'', JStr pt)],
                         JObj [(''title'', JStr ''Payload Description''),
                               (''value'', JStr pd)],
                         JObj [(''title'', JStr ''Launch Time''), (''value'', JStr lt)],
                         JObj [(''title'', JStr ''Launch Site''),
                               (''value'', JStr ls)]])]])]])]]),
       (''actions'', JArr [
          JObj [
            (''type'', JStr ''Action.OpenUrl''),
            (''title'', JStr ''Watch the Launch''),
            (''url'', JStr vs)]])])]]),
       (''text'', JStr ''New Rocket Launch Detected'')]\<rparr>]))"
proof -
  have m: "map (field_value example_odd) required_fields =
      map (field_value example_odd_reordered) required_fields"
    using odd_examples_agree by simp
  note t = payload_is_fixed_function_of_fields [OF example_odd_well_formed
      example_odd_reordered_well_formed odd_examples_agree,
      of example_config "replies 200 ''{}''" "[]" "replies 503 ''down''"]
  show ?thesis
    by (rule conjI [OF example_odd_well_formed
          conjI [OF example_odd_reordered_well_formed conjI [OF m t]]])
qed

text \<open>
  C7. The card is an ordered copy: the facts of the FactSet are titled Rocket Name,
  Payload Type, Payload Description, Launch Time and Launch Site, and their values are
  the event's values of the first five fields in the order of the data model; every
  scalar of the card is a constant of the card schema or one of the seven field
  values, each in its slot, so no value is computed from the fields.
\<close>

theorem card_is_ordered_copy:
  assumes "field_value ev ''rocket_name'' = Some (JStr rn)"
    and "field_value ev ''payload_type'' = Some (JStr pt)"
    and "field_value ev ''payload_description'' = Some (JStr pd)"
    and "field_value ev ''launch_time'' = Some (JStr lt)"
    and "field_value ev ''launch_site'' = Some (JStr ls)"
    and "field_value ev ''mission_patch'' = Some (JStr mp)"
    and "field_value ev ''video_stream'' = Some (JStr vs)"
  shows "\<exists>request content facts.
     fst (handle_webhook cfg post ev w) = w @ [request] \<and>
     lookup_path (req_json request) card_path = Some content \<and>
     lookup_path content (factset_path @ [Key ''facts'']) = Some (JArr facts) \<and>
     map (\<lambda>f. at f (Key ''title'')) facts =
       [Some (JStr ''Rocket Name''), Some (JStr ''Payload Type''),
        Some (JStr ''Payload Description''), Some (JStr ''Launch Time''),
        Some (JStr ''Launch Site'')] \<and>
     map (\<lambda>f. at f (Key ''value'')) facts = map (field_value ev) (take 5 required_fields) \<and>
     leaves content =
       [JStr ''http://adaptivecards.io/schemas/adaptive-card.json'', JStr ''AdaptiveCard'',
        JStr ''1.3'',
        JStr ''TextBlock'', JStr ''Rocket Launch Successful!'', JStr ''Bolder'', JStr ''Large'',
        JStr ''Accent'', JBool True,
        JStr ''ColumnSet'', JStr ''Column'', JStr ''auto'',
        JStr ''Image'', JStr mp, JStr ''Small'', JStr ''Person'',
        JStr ''Column'', JStr ''stretch'',
        JStr ''TextBlock'', JStr ''Rocket Launch Details'', JStr ''Bolder'', JBool True,
        JStr ''FactSet'',
        JStr ''Rocket Name'', JStr rn, JStr ''Payload Type'', JStr pt,
        JStr ''Payload Description'', JStr pd, JStr ''Launch Time'', JStr lt,
        JStr ''Launch Site'', JStr ls,
        JStr ''Action.OpenUrl'', JStr ''Watch the Launch'', JStr vs]"
proof -
  let ?l = "\<lparr>rocket_name = JStr rn, payload_type = JStr pt, payload_description = JStr pd,
             launch_time = JStr lt, launch_site = JStr ls, mission_patch = JStr mp,
             video_stream = JStr vs\<rparr>"
  let ?facts = "[
        JObj [(''title'', JStr ''Rocket Name''), (''value'', JStr rn)],
        JObj [(''title'', JStr ''Payload Type''), (''value'', JStr pt)],
        JObj [(''title'', JStr ''Payload Description''), (''value'', JStr pd)],
        JObj [(''title'', JStr ''Launch Time''), (''value'', JStr lt)],
        JObj [(''title'', JStr ''Launch Site''), (''value'', JStr ls)]]"
  from assms have "launch_details ev = Inr ?l"
    by (simp add: launch_details_Inr_iff)
  then have 1: "fst (handle_webhook cfg post ev w) =
      w @ [\<lparr>req_url = api_url, req_headers = headers cfg,
              req_json = message_payload cfg (card_payload ?l)\<rparr>]"
    by (simp add: handle_webhook_posts)
  have 2: "lookup_path (req_json \<lparr>req_url = api_url, req_headers = headers cfg,
              req_json = message_payload cfg (card_payload ?l)\<rparr>) card_path =
        Some (card_payload ?l)"
    by (simp add: message_card)
  have 3: "lookup_path (card_payload ?l) (factset_path @ [Key ''facts'']) = Some (JArr ?facts)"
    by (simp only: card_facts) simp
  have 4: "map (\<lambda>f. at f (Key ''title'')) ?facts =
       [Some (JStr ''Rocket Name''), Some (JStr ''Payload Type''),
        Some (JStr ''Payload Description''), Some (JStr ''Launch Time''),
        Some (JStr ''Launch Site'')]"
    by simp
  have 5: "map (\<lambda>f. at f (Key ''value'')) ?facts = map (field_value ev) (take 5 required_fields)"
    by (simp add: first_five_fields assms)
  have 6: "leaves (card_payload ?l) =
       [JStr ''http://adaptivecards.io/schemas/adaptive-card.json'', JStr ''AdaptiveCard'',
        JStr ''1.3'',
        JStr ''TextBlock'', JStr ''Rocket Launch Successful!'', JStr ''Bolder'', JStr ''Large'',
        JStr ''Accent'', JBool True,
        JStr ''ColumnSet'', JStr ''Column'', JStr ''auto'',
        JStr ''Image'', JStr mp, JStr ''Small'', JStr ''Person'',
        JStr ''Column'', JStr ''stretch'',
        JStr ''TextBlock'', JStr ''Rocket Launch Details'', JStr ''Bolder'', JBool True,
        JStr ''FactSet'',
        JStr ''Rocket Name'', JStr rn, JStr ''Payload Type'', JStr pt,
        JStr ''Payload Description'', JStr pd, JStr ''Launch Time'', JStr lt,
        JStr ''Launch Site'', JStr ls,
        JStr ''Action.OpenUrl'', JStr ''Watch the Launch'', JStr vs]"
    by (simp only: card_leaves) simp
  show ?thesis
    by (rule exI [where x = "\<lparr>req_url = api_url, req_headers = headers cfg,
              req_json = message_payload cfg (card_payload ?l)\<rparr>"],
        rule exI [where x = "card_payload ?l"], rule exI [where x = ?facts],
        intro conjI) (fact 1 2 3 4 5 6)+
qed

text \<open>The theorem at the example event of the specification.\<close>

theorem card_is_ordered_copy_witness:
  "field_value example_event ''rocket_name'' = Some (JStr ''Falcon 9'') \<and>
   field_value example_event ''payload_type'' = Some (JStr ''Satellite'') \<and>
   field_value example_event ''payload_description'' = Some (JStr ''Comms relay'') \<and>
   field_value example_event ''launch_time'' = Some (JStr ''2024-01-01T00:00:00Z'') \<and>
   field_value example_event ''launch_site'' = Some (JStr ''Cape Canaveral'') \<and>
   field_value example_event ''mission_patch'' = Some (JStr ''http://x/img.png'') \<and>
   field_value example_event ''video_stream'' = Some (JStr ''http://x/video'') \<and>
   (\<exists>request content facts.
     fst (handle_webhook example_config (replies 200 ''{}'') example_event []) = [] @ [request] \<and>
     lookup_path (req_json request) card_path = Some content \<and>
     lookup_path content (factset_path @ [Key ''facts'']) = Some (JArr facts) \<and>
     map (\<lambda>f. at f (Key ''title'')) facts =
       [Some (JStr ''Rocket Name''), Some (JStr ''Payload Type''),
        Some (JStr ''Payload Description''), Some (JStr ''Launch Time''),
        Some (JStr ''Launch Site'')] \<and>
     map (\<lambda>f. at f (Key ''value'')) facts =
       map (field_value example_event) (take 5 required_fields) \<and>
     leaves content =
       [JStr ''http://adaptivecards.io/schemas/adaptive-card.json'', JStr ''AdaptiveCard'',
        JStr ''1.3'',
        JStr ''TextBlock'', JStr ''Rocket Launch Successful!'', JStr ''Bolder'', JStr ''Large'',
        JStr ''Accent'', JBool True,
        JStr ''ColumnSet'', JStr ''Column'', JStr ''auto'',
        JStr ''Image'', JStr ''http://x/img.png'', JStr ''Small'', JStr ''Person'',
        JStr ''Column'', JStr ''stretch'',
        JStr ''TextBlock'', JStr ''Rocket Launch Details'', JStr ''Bolder'', JBool True,
        JStr ''FactSet'',
        JStr ''Rocket Name'', JStr ''Falcon 9'', JStr ''Payload Type'', JStr ''Satellite'',
        JStr ''Payload Description'', JStr ''Comms relay'',
        JStr ''Launch Time'', JStr ''2024-01-01T00:00:00Z'',
        JStr ''Launch Site'', JStr ''Cape Canaveral'',
        JStr ''Action.OpenUrl'', JStr ''Watch the Launch'', JStr ''http://x/video''])"
  using card_is_ordered_copy [OF example_fields, of example_config "replies 200 ''{}''" "[]"]
  by (simp only: example_fields simp_thms)

text \<open>
  C8. The status view answers with status 200 and a fixed body that is not empty; it
  takes no request data, and serving it leaves the posted requests as they were,
  whatever they are (whatever webhook activity went before), without consulting the
  messaging API.
\<close>

theorem status_always_confirms:
  "status pre suf =
     \<lparr>resp_body = Html (pre @ ''The server is up and running!'' @ suf), resp_status = 200\<rparr> \<and>
   pre @ ''The server is up and running!'' @ suf \<noteq> [] \<and>
   serve cfg post pre suf GET_status w = (w, Inr (status pre suf))"
  by (simp add: status_def render_status_html_def)

text \<open>
  C9, as claimed, fails: a response with status 600 is not below 400, and the handler
  still answers \<open>success: true\<close> with status 200, since \<^verbatim>\<open>Response.ok\<close> is false only
  for the statuses from 400 to 599.
\<close>

theorem status_600_acknowledged_counterexample:
  "snd (handle_webhook example_config (replies 600 ''nonstandard'') example_event []) =
     Inr \<lparr>resp_body = Json (JObj [(''success'', JBool True)]), resp_status = 200\<rparr> \<and>
   \<not> (600 :: int) < 400"
proof -
  have a: "replies 600 ''nonstandard'' x = Inr \<lparr>status_code = 600, resp_text = ''nonstandard''\<rparr>" for x
    by (simp add: replies_def)
  from answered [OF example_well_formed example_posts a]
  show ?thesis by (simp add: respond_def ok_iff)
qed

text \<open>
  C9, amended. The handler acknowledges success exactly when the status of the API's
  response is below 400 or is 600 or more, so for every status from 300 to 399 it
  answers \<open>success: true\<close> with status 200 and does not mirror the status; the failure
  branch is taken exactly for the statuses from 400 to 599.
\<close>

theorem success_iff_not_error_status:
  assumes "well_formed ev"
    and "fst (handle_webhook cfg post ev w) = w @ [request]"
    and "post request = Inr r"
  shows "(snd (handle_webhook cfg post ev w) =
            Inr \<lparr>resp_body = Json (JObj [(''success'', JBool True)]), resp_status = 200\<rparr>)
         = (status_code r < 400 \<or> 600 \<le> status_code r) \<and>
         (snd (handle_webhook cfg post ev w) =
            Inr \<lparr>resp_body = Json (JObj [(''success'', JBool False),
                                         (''message'', JStr (resp_text r))]),
                 resp_status = status_code r\<rparr>)
         = (400 \<le> status_code r \<and> status_code r < 600)"
  using answered [OF assms] by (auto simp: respond_def ok_iff)

text \<open>The theorem at the example event, answered with status 302.\<close>

theorem success_iff_not_error_status_witness:
  "well_formed example_event \<and>
   (snd (handle_webhook example_config (replies 302 ''moved'') example_event []) =
            Inr \<lparr>resp_body = Json (JObj [(''success'', JBool True)]), resp_status = 200\<rparr>)
         = ((302 :: int) < 400 \<or> (600 :: int) \<le> 302) \<and>
   (snd (handle_webhook example_config (replies 302 ''moved'') example_event []) =
            Inr \<lparr>resp_body = Json (JObj [(''success'', JBool False),
                                         (''message'', JStr ''moved'')]),
                 resp_status = 302\<rparr>)
         = ((400 :: int) \<le> 302 \<and> (302 :: int) < 600)"
proof -
  have a: "replies 302 ''moved'' x = Inr \<lparr>status_code = 302, resp_text = ''moved''\<rparr>" for x
    by (simp add: replies_def)
  from success_iff_not_error_status [OF example_well_formed example_posts a]
  show ?thesis using example_well_formed by simp
qed

text \<open>
  C10. For every well-formed event the first element of the card body is the text
  block \<^verbatim>\<open>Rocket Launch Successful!\<close> with weight Bolder and size Large, and the text
  of the message is \<^verbatim>\<open>New Rocket Launch Detected\<close>: constants, the same for every
  event.
\<close>

theorem announcement_is_constant:
  assumes "well_formed ev"
  shows "\<exists>request.
     fst (handle_webhook cfg post ev w) = w @ [request] \<and>
     lookup_path (req_json request) (card_path @ header_path) =
       Some (JObj [(''type'', JStr ''TextBlock''), (''text'', JStr ''Rocket Launch Successful!''),
                   (''weight'', JStr ''Bolder''), (''size'', JStr ''Large''),
                   (''color'', JStr ''Accent''), (''wrap'', JBool True)]) \<and>
     lookup_path (req_json request) [Key ''text''] = Some (JStr ''New Rocket Launch Detected'')"
proof -
  from well_formed_launch_details [OF assms] obtain l where "launch_details ev = Inr l" ..
  then have 1: "fst (handle_webhook cfg post ev w) =
      w @ [\<lparr>req_url = api_url, req_headers = headers cfg,
              req_json = message_payload cfg (card_payload l)\<rparr>]"
    by (simp add: handle_webhook_posts)
  have 2: "lookup_path (req_json \<lparr>req_url = api_url, req_headers = headers cfg,
              req_json = message_payload cfg (card_payload l)\<rparr>) (card_path @ header_path) =
       Some (JObj [(''type'', JStr ''TextBlock''), (''text'', JStr ''Rocket Launch Successful!''),
                   (''weight'', JStr ''Bolder''), (''size'', JStr ''Large''),
                   (''color'', JStr ''Accent''), (''wrap'', JBool True)])"
    by (simp only: post_request.simps card_of_message card_header)
  have 3: "lookup_path (req_json \<lparr>req_url = api_url, req_headers = headers cfg,
              req_json = message_payload cfg (card_payload l)\<rparr>) [Key ''text''] =
       Some (JStr ''New Rocket Launch Detected'')"
    by (simp only: post_request.simps message_text)
  show ?thesis
    by (rule exI [where x = "\<lparr>req_url = api_url, req_headers = headers cfg,
              req_json = message_payload cfg (card_payload l)\<rparr>"], intro conjI)
       (fact 1 2 3)+
qed

text \<open>The theorem at the example event of the specification.\<close>

theorem announcement_is_constant_witness:
  "well_formed example_event \<and>
   (\<exists>request.
     fst (handle_webhook example_config (replies 200 ''{}'') example_event []) = [] @ [request] \<and>
     lookup_path (req_json request) (card_path @ header_path) =
       Some (JObj [(''type'', JStr ''TextBlock''), (''text'', JStr ''Rocket Launch Successful!''),
                   (''weight'', JStr ''Bolder''), (''size'', JStr ''Large''),
                   (''color'', JStr ''Accent''), (''wrap'', JBool True)]) \<and>
     lookup_path (req_json request) [Key ''text''] = Some (JStr ''New Rocket Launch Detected''))"
  using announcement_is_constant [OF example_well_formed, of example_config "replies 200 ''{}''" "[]"]
    example_well_formed
  by blast

end
